theory Spec2Isabelle
  imports Main "HOL-Library.Sublist"
begin

section \<open>The documentation configuration \<open>docs/source/conf.py\<close> of rules_testing\<close>

text \<open>
  The repository's only source file is a Python module that the documentation builder
  executes once and whose resulting module namespace it reads as its configuration.
  The module is embedded as the list of its top-level statements, and its meaning is given
  by an evaluator for the Python it is written in: assignments of string, list and
  dictionary displays to names. So that the absence of names, calls, deletions,
  conditionals, loops and function definitions is a property of the file and not of the
  embedding, the statement and expression types have these forms too, and the evaluator
  gives each of them its meaning.
\<close>

subsection \<open>Syntax\<close>

datatype expr =
    Str string
  | ListE "expr list"
  | DictE "(expr \<times> expr) list"
  | Name string
  | Call expr "expr list"

datatype stmt =
    Assign string expr
  | Del string
  | ExprStmt expr
  | If expr "stmt list" "stmt list"
  | While expr "stmt list"
  | For string expr "stmt list"
  | FunctionDef string "string list" "stmt list"

subsection \<open>Values, state, errors and the host\<close>

text \<open>
  A function object is identified by the index at which its \<open>def\<close> statement stored its
  code, since Python compares function objects by identity. \<open>VBuiltin\<close> is a function
  object supplied by the interpreter or by the program that runs the module. Strings,
  lists and dictionaries are plain values: no form of the syntax above mutates an object
  in place. A dictionary keeps its items in insertion order.
\<close>

datatype val =
    VNone
  | VStr string
  | VList "val list"
  | VDict "(val \<times> val) list"
  | VFunc nat
  | VBuiltin string

record state =
  globals :: "string \<rightharpoonup> val"
  funcs :: "(string list \<times> stmt list) list"

datatype error =
    NameError string
  | TypeError
  | Exception string

text \<open>
  What lies outside the module is the \<open>host\<close>: the built-in names, and what a call does.
  A call may read anything (the process environment, the file system, the clock), may
  rebind names of the module, may raise and may fail to return (\<open>None\<close>); the evaluator
  takes its outcome from the host.
\<close>

record host =
  builtins :: "string \<rightharpoonup> val"
  call :: "val \<Rightarrow> val list \<Rightarrow> state \<Rightarrow> (error + val \<times> state) option"

subsection \<open>Expressions\<close>

fun hashable :: "val \<Rightarrow> bool" where
  "hashable (VList _) = False"
| "hashable (VDict _) = False"
| "hashable _ = True"

text \<open>Storing under a key that is present replaces the value and keeps the position.\<close>

fun dict_store :: "(val \<times> val) list \<Rightarrow> val \<Rightarrow> val \<Rightarrow> (val \<times> val) list" where
  "dict_store [] k v = [(k, v)]"
| "dict_store ((k', v') # d) k v =
     (if k' = k then (k', v) # d else (k', v') # dict_store d k v)"

text \<open>
  A dictionary display evaluates every key and value, left to right, and then builds
  the dictionary; a list or dictionary as key raises \<open>TypeError\<close> there.
\<close>

fun build_dict :: "(val \<times> val) list \<Rightarrow> (val \<times> val) list \<Rightarrow> error + (val \<times> val) list" where
  "build_dict d [] = Inr d"
| "build_dict d ((k, v) # kvs) =
     (if hashable k then build_dict (dict_store d k v) kvs else Inl TypeError)"

function (sequential) eval :: "host \<Rightarrow> expr \<Rightarrow> state \<Rightarrow> (error + val \<times> state) option"
and eval_list :: "host \<Rightarrow> expr list \<Rightarrow> state \<Rightarrow> (error + val list \<times> state) option"
and eval_items ::
  "host \<Rightarrow> (expr \<times> expr) list \<Rightarrow> state \<Rightarrow> (error + (val \<times> val) list \<times> state) option"
where
  "eval h (Str t) s = Some (Inr (VStr t, s))"
| "eval h (ListE es) s =
     (case eval_list h es s of
        Some (Inr (vs, s')) \<Rightarrow> Some (Inr (VList vs, s'))
      | Some (Inl err) \<Rightarrow> Some (Inl err)
      | None \<Rightarrow> None)"
| "eval h (DictE kvs) s =
     (case eval_items h kvs s of
        Some (Inr (items, s')) \<Rightarrow>
          (case build_dict [] items of
             Inr d \<Rightarrow> Some (Inr (VDict d, s'))
           | Inl err \<Rightarrow> Some (Inl err))
      | Some (Inl err) \<Rightarrow> Some (Inl err)
      | None \<Rightarrow> None)"
| "eval h (Name x) s =
     (case globals s x of
        Some v \<Rightarrow> Some (Inr (v, s))
      | None \<Rightarrow>
          (case builtins h x of
             Some v \<Rightarrow> Some (Inr (v, s))
           | None \<Rightarrow> Some (Inl (NameError x))))"
| "eval h (Call f args) s =
     (case eval h f s of
        Some (Inr (fv, s1)) \<Rightarrow>
          (case eval_list h args s1 of
             Some (Inr (vs, s2)) \<Rightarrow> call h fv vs s2
           | Some (Inl err) \<Rightarrow> Some (Inl err)
           | None \<Rightarrow> None)
      | Some (Inl err) \<Rightarrow> Some (Inl err)
      | None \<Rightarrow> None)"
| "eval_list h [] s = Some (Inr ([], s))"
| "eval_list h (e # es) s =
     (case eval h e s of
        Some (Inr (v, s1)) \<Rightarrow>
          (case eval_list h es s1 of
             Some (Inr (vs, s2)) \<Rightarrow> Some (Inr (v # vs, s2))
           | Some (Inl err) \<Rightarrow> Some (Inl err)
           | None \<Rightarrow> None)
      | Some (Inl err) \<Rightarrow> Some (Inl err)
      | None \<Rightarrow> None)"
| "eval_items h [] s = Some (Inr ([], s))"
| "eval_items h ((k, v) # kvs) s =
     (case eval h k s of
        Some (Inr (kv, s1)) \<Rightarrow>
          (case eval h v s1 of
             Some (Inr (vv, s2)) \<Rightarrow>
               (case eval_items h kvs s2 of
                  Some (Inr (items, s3)) \<Rightarrow> Some (Inr ((kv, vv) # items, s3))
                | Some (Inl err) \<Rightarrow> Some (Inl err)
                | None \<Rightarrow> None)
           | Some (Inl err) \<Rightarrow> Some (Inl err)
           | None \<Rightarrow> None)
      | Some (Inl err) \<Rightarrow> Some (Inl err)
      | None \<Rightarrow> None)"
  by pat_completeness auto

termination
  by (relation "measure (\<lambda>x. case x of
          Inl (h, e, s) \<Rightarrow> size e
        | Inr (Inl (h, es, s)) \<Rightarrow> size_list size es
        | Inr (Inr (h, kvs, s)) \<Rightarrow> size_list (size_prod size size) kvs)")
     auto

subsection \<open>Statements\<close>

fun truthy :: "val \<Rightarrow> bool" where
  "truthy VNone = False"
| "truthy (VStr t) = (t \<noteq> [])"
| "truthy (VList vs) = (vs \<noteq> [])"
| "truthy (VDict d) = (d \<noteq> [])"
| "truthy (VFunc _) = True"
| "truthy (VBuiltin _) = True"

text \<open>What a \<open>for\<close> loop runs over: the items of a list, the keys of a dictionary, the
  characters of a string; anything else is not iterable.\<close>

fun iterate :: "val \<Rightarrow> val list option" where
  "iterate (VList vs) = Some vs"
| "iterate (VDict d) = Some (map fst d)"
| "iterate (VStr t) = Some (map (\<lambda>c. VStr [c]) t)"
| "iterate _ = None"

definition bind_name :: "string \<Rightarrow> val \<Rightarrow> state \<Rightarrow> state" where
  "bind_name x v s = s\<lparr>globals := (globals s)(x \<mapsto> v)\<rparr>"

text \<open>
  The fuel bounds \<open>while\<close> loops only: an iteration takes one unit, and its body and
  the iterations after it run on what is left. \<open>None\<close> is a loop that has not ended
  within the fuel, or a call that does not return.
\<close>

fun exec_stmt :: "host \<Rightarrow> nat \<Rightarrow> stmt \<Rightarrow> state \<Rightarrow> (error + state) option"
and exec_block :: "host \<Rightarrow> nat \<Rightarrow> stmt list \<Rightarrow> state \<Rightarrow> (error + state) option"
and exec_for ::
  "host \<Rightarrow> nat \<Rightarrow> string \<Rightarrow> val list \<Rightarrow> stmt list \<Rightarrow> state \<Rightarrow> (error + state) option"
where
  "exec_stmt h n (Assign x e) s =
     (case eval h e s of
        Some (Inr (v, s')) \<Rightarrow> Some (Inr (bind_name x v s'))
      | Some (Inl err) \<Rightarrow> Some (Inl err)
      | None \<Rightarrow> None)"
| "exec_stmt h n (Del x) s =
     (case globals s x of
        Some _ \<Rightarrow> Some (Inr (s\<lparr>globals := (globals s)(x := None)\<rparr>))
      | None \<Rightarrow> Some (Inl (NameError x)))"
| "exec_stmt h n (ExprStmt e) s =
     (case eval h e s of
        Some (Inr (v, s')) \<Rightarrow> Some (Inr s')
      | Some (Inl err) \<Rightarrow> Some (Inl err)
      | None \<Rightarrow> None)"
| "exec_stmt h n (If c a b) s =
     (case eval h c s of
        Some (Inr (v, s')) \<Rightarrow> (if truthy v then exec_block h n a s' else exec_block h n b s')
      | Some (Inl err) \<Rightarrow> Some (Inl err)
      | None \<Rightarrow> None)"
| "exec_stmt h 0 (While c b) s =
     (case eval h c s of
        Some (Inr (v, s')) \<Rightarrow> (if truthy v then None else Some (Inr s'))
      | Some (Inl err) \<Rightarrow> Some (Inl err)
      | None \<Rightarrow> None)"
| "exec_stmt h (Suc n) (While c b) s =
     (case eval h c s of
        Some (Inr (v, s')) \<Rightarrow>
          (if truthy v then
             (case exec_block h n b s' of
                Some (Inr s'') \<Rightarrow> exec_stmt h n (While c b) s''
              | Some (Inl err) \<Rightarrow> Some (Inl err)
              | None \<Rightarrow> None)
           else Some (Inr s'))
      | Some (Inl err) \<Rightarrow> Some (Inl err)
      | None \<Rightarrow> None)"
| "exec_stmt h n (For x e b) s =
     (case eval h e s of
        Some (Inr (v, s')) \<Rightarrow>
          (case iterate v of
             Some vs \<Rightarrow> exec_for h n x vs b s'
           | None \<Rightarrow> Some (Inl TypeError))
      | Some (Inl err) \<Rightarrow> Some (Inl err)
      | None \<Rightarrow> None)"
| "exec_stmt h n (FunctionDef f ps b) s =
     Some (Inr (bind_name f (VFunc (length (funcs s))) (s\<lparr>funcs := funcs s @ [(ps, b)]\<rparr>)))"
| "exec_block h n [] s = Some (Inr s)"
| "exec_block h n (st # rest) s =
     (case exec_stmt h n st s of
        Some (Inr s') \<Rightarrow> exec_block h n rest s'
      | Some (Inl err) \<Rightarrow> Some (Inl err)
      | None \<Rightarrow> None)"
| "exec_for h n x [] b s = Some (Inr s)"
| "exec_for h n x (v # vs) b s =
     (case exec_block h n b (bind_name x v s) of
        Some (Inr s') \<Rightarrow> exec_for h n x vs b s'
      | Some (Inl err) \<Rightarrow> Some (Inl err)
      | None \<Rightarrow> None)"

subsection \<open>The module\<close>

text \<open>The statements of \<open>conf.py\<close>, in the order of the file; comments and blank lines
  are not statements.\<close>

definition conf_py :: "stmt list" where
  "conf_py =
    [ Assign ''project'' (Str ''rules_testing''),
      Assign ''copyright'' (Str ''2023, The Bazel Authors''),
      Assign ''author'' (Str ''Bazel''),
      Assign ''release'' (Str ''0.1''),
      Assign ''version'' (Str ''0.1.0''),
      Assign ''extensions'' (ListE
        [ Str ''sphinx.ext.duration'',
          Str ''sphinx.ext.doctest'',
          Str ''sphinx.ext.autodoc'',
          Str ''sphinx.ext.autosummary'',
          Str ''sphinx.ext.intersphinx'',
          Str ''sphinx.ext.autosectionlabel'',
          Str ''myst_parser'',
          Str ''sphinx_rtd_theme'' ]),
      Assign ''intersphinx_mapping'' (DictE []),
      Assign ''intersphinx_disabled_domains'' (ListE [Str ''std'']),
      Assign ''intersphinx_disabled_reftypes'' (ListE [Str ''*'']),
      Assign ''templates_path'' (ListE [Str ''_templates'']),
      Assign ''html_theme'' (Str ''sphinx_rtd_theme''),
      Assign ''html_theme_options'' (DictE []),
      Assign ''myst_enable_extensions'' (ListE
        [ Str ''fieldlist'',
          Str ''attrs_block'',
          Str ''attrs_inline'',
          Str ''colon_fence'',
          Str ''deflist'' ]),
      Assign ''html_static_path'' (ListE [Str ''_static'']),
      Assign ''html_css_files'' (ListE [Str ''css/custom.css'']),
      Assign ''epub_show_urls'' (Str ''footnote'') ]"

subsection \<open>Shapes of statements and values\<close>

text \<open>A literal is a display with no name and no call in it, at any depth.\<close>

fun literal :: "expr \<Rightarrow> bool" where
  "literal (Str _) = True"
| "literal (ListE es) = list_all literal es"
| "literal (DictE kvs) = list_all (\<lambda>(k, v). literal k \<and> literal v) kvs"
| "literal (Name _) = False"
| "literal (Call _ _) = False"

fun plain_assign :: "stmt \<Rightarrow> bool" where
  "plain_assign (Assign x e) = literal e"
| "plain_assign _ = False"

text \<open>The names a block assigns at its top level, one entry for each assignment.\<close>

fun targets :: "stmt list \<Rightarrow> string list" where
  "targets [] = []"
| "targets (Assign x e # rest) = x # targets rest"
| "targets (st # rest) = targets rest"

fun is_string :: "val \<Rightarrow> bool" where
  "is_string (VStr _) = True"
| "is_string _ = False"

fun is_mapping :: "val \<Rightarrow> bool" where
  "is_mapping (VDict _) = True"
| "is_mapping _ = False"

fun is_string_list :: "val \<Rightarrow> bool" where
  "is_string_list (VList vs) = list_all is_string vs"
| "is_string_list _ = False"

text \<open>A host with no built-in name whose calls never return, and the state of a module
  in which nothing is bound yet: the concrete inputs of the examples below.\<close>

definition bare_host :: host where
  "bare_host = \<lparr>builtins = Map.empty, call = (\<lambda>f vs s. None)\<rparr>"

definition empty_state :: state where
  "empty_state = \<lparr>globals = Map.empty, funcs = []\<rparr>"

section \<open>Evaluating the module\<close>

text \<open>
  Whatever the host, the fuel and the state the module starts in, its sixteen statements
  run to the end, each binding one name in the state left by the one before it.
\<close>

lemma exec_conf_py:
  "exec_block h n conf_py s = Some (Inr
     (bind_name ''epub_show_urls'' (VStr ''footnote'')
     (bind_name ''html_css_files'' (VList [VStr ''css/custom.css''])
     (bind_name ''html_static_path'' (VList [VStr ''_static''])
     (bind_name ''myst_enable_extensions''
        (VList [VStr ''fieldlist'', VStr ''attrs_block'', VStr ''attrs_inline'',
                VStr ''colon_fence'', VStr ''deflist''])
     (bind_name ''html_theme_options'' (VDict [])
     (bind_name ''html_theme'' (VStr ''sphinx_rtd_theme'')
     (bind_name ''templates_path'' (VList [VStr ''_templates''])
     (bind_name ''intersphinx_disabled_reftypes'' (VList [VStr ''*''])
     (bind_name ''intersphinx_disabled_domains'' (VList [VStr ''std''])
     (bind_name ''intersphinx_mapping'' (VDict [])
     (bind_name ''extensions''
        (VList [VStr ''sphinx.ext.duration'', VStr ''sphinx.ext.doctest'',
                VStr ''sphinx.ext.autodoc'', VStr ''sphinx.ext.autosummary'',
                VStr ''sphinx.ext.intersphinx'', VStr ''sphinx.ext.autosectionlabel'',
                VStr ''myst_parser'', VStr ''sphinx_rtd_theme''])
     (bind_name ''version'' (VStr ''0.1.0'')
     (bind_name ''release'' (VStr ''0.1'')
     (bind_name ''author'' (VStr ''Bazel'')
     (bind_name ''copyright'' (VStr ''2023, The Bazel Authors'')
     (bind_name ''project'' (VStr ''rules_testing'') s)))))))))))))))))"
  by (simp add: conf_py_def)

lemma targets_conf_py:
  "targets conf_py =
    [''project'', ''copyright'', ''author'', ''release'', ''version'', ''extensions'',
     ''intersphinx_mapping'', ''intersphinx_disabled_domains'',
     ''intersphinx_disabled_reftypes'', ''templates_path'', ''html_theme'',
     ''html_theme_options'', ''myst_enable_extensions'', ''html_static_path'',
     ''html_css_files'', ''epub_show_urls'']"
  by (simp add: conf_py_def)

lemma conf_py_length: "length conf_py = 16"
  by (simp add: conf_py_def)

lemma split_at_index:
  assumes "xs = pre @ st # post"
  shows "length pre < length xs \<and> pre = take (length pre) xs \<and> st = xs ! length pre"
  using assms by simp

lemma below_16_cases:
  assumes "k < (16::nat)"
  shows "k = 0 \<or> k = 1 \<or> k = 2 \<or> k = 3 \<or> k = 4 \<or> k = 5 \<or> k = 6 \<or> k = 7 \<or>
         k = 8 \<or> k = 9 \<or> k = 10 \<or> k = 11 \<or> k = 12 \<or> k = 13 \<or> k = 14 \<or> k = 15"
  using assms by arith

text \<open>
  The statement at position \<open>k\<close> runs in the state its predecessors leave; there every
  name they assign is bound, and the statement changes none of these bindings.
\<close>

lemma conf_py_step:
  assumes "k < 16"
  shows "\<exists>s s'. exec_block h n (take k conf_py) s0 = Some (Inr s) \<and>
           exec_stmt h n (conf_py ! k) s = Some (Inr s') \<and>
           list_all (\<lambda>x. globals s x \<noteq> None \<and> globals s' x = globals s x)
             (targets (take k conf_py))"
proof -
  from below_16_cases [OF assms] show ?thesis
    by (elim disjE) (simp_all add: conf_py_def bind_name_def)
qed

section \<open>The claims\<close>

text \<open>
  C1. Every statement of the module is the assignment of a literal to a name: none is a
  conditional, a loop, a function definition, a deletion or a bare expression, and no
  right-hand side holds a call or reads a name, so no value is composed from another
  binding. Evaluating the module, from any state and under any host, ends without error,
  defines no function and binds exactly the names the file assigns on top of those bound
  before; each of these names is then bound to a string, to a mapping or to a list of
  strings.
\<close>

theorem conf_py_flat_literals:
  "list_all plain_assign conf_py \<and>
   (\<exists>s'. exec_block h n conf_py s = Some (Inr s') \<and>
      funcs s' = funcs s \<and>
      dom (globals s') = dom (globals s) \<union> set (targets conf_py) \<and>
      list_all (\<lambda>x. case globals s' x of
                   Some v \<Rightarrow> is_string v \<or> is_mapping v \<or> is_string_list v
                 | None \<Rightarrow> False) (targets conf_py))"
proof -
  have "list_all plain_assign conf_py"
    by (simp add: conf_py_def)
  moreover have "\<exists>s'. exec_block h n conf_py s = Some (Inr s') \<and>
      funcs s' = funcs s \<and>
      dom (globals s') = dom (globals s) \<union> set (targets conf_py) \<and>
      list_all (\<lambda>x. case globals s' x of
                   Some v \<Rightarrow> is_string v \<or> is_mapping v \<or> is_string_list v
                 | None \<Rightarrow> False) (targets conf_py)"
    unfolding exec_conf_py targets_conf_py
    by (auto simp: bind_name_def)
  ultimately show ?thesis by blast
qed

text \<open>
  C2, as stated, fails: the claim allows a top-level value to be a string or a mapping
  only, and the value the module binds to \<open>extensions\<close> is a list, which is neither.
\<close>

theorem conf_py_extensions_is_a_list:
  "(case exec_block bare_host 0 conf_py empty_state of
      Some (Inr s') \<Rightarrow> globals s' ''extensions''
    | _ \<Rightarrow> None) =
     Some (VList (map VStr
       [''sphinx.ext.duration'', ''sphinx.ext.doctest'', ''sphinx.ext.autodoc'',
        ''sphinx.ext.autosummary'', ''sphinx.ext.intersphinx'',
        ''sphinx.ext.autosectionlabel'', ''myst_parser'', ''sphinx_rtd_theme''])) \<and>
   \<not> is_string (VList (map VStr
       [''sphinx.ext.duration'', ''sphinx.ext.doctest'', ''sphinx.ext.autodoc'',
        ''sphinx.ext.autosummary'', ''sphinx.ext.intersphinx'',
        ''sphinx.ext.autosectionlabel'', ''myst_parser'', ''sphinx_rtd_theme''])) \<and>
   \<not> is_mapping (VList (map VStr
       [''sphinx.ext.duration'', ''sphinx.ext.doctest'', ''sphinx.ext.autodoc'',
        ''sphinx.ext.autosummary'', ''sphinx.ext.intersphinx'',
        ''sphinx.ext.autosectionlabel'', ''myst_parser'', ''sphinx_rtd_theme'']))"
  by (simp add: exec_conf_py bind_name_def)

text \<open>
  C2, amended. Every name the file assigns is bound, after the module has run, to a
  string, to a mapping or to a list of strings; no other kind of value is set.
\<close>

theorem conf_py_value_kinds:
  assumes "x \<in> set (targets conf_py)"
  shows "\<exists>s' v. exec_block h n conf_py s = Some (Inr s') \<and> globals s' x = Some v \<and>
           (is_string v \<or> is_mapping v \<or> is_string_list v)"
  using assms unfolding exec_conf_py targets_conf_py
  by (auto simp: bind_name_def)

theorem conf_py_value_kinds_witness:
  "''extensions'' \<in> set (targets conf_py) \<and>
   (\<exists>s' v. exec_block bare_host 0 conf_py empty_state = Some (Inr s') \<and>
      globals s' ''extensions'' = Some v \<and>
      (is_string v \<or> is_mapping v \<or> is_string_list v))"
proof -
  have m: "''extensions'' \<in> set (targets conf_py)"
    by (simp add: targets_conf_py)
  from conf_py_value_kinds [OF m, of bare_host 0 empty_state] m show ?thesis
    by blast
qed

text \<open>
  C3. Every statement of the file is a top-level assignment, and each name assigned is
  assigned exactly once. Wherever the file is cut into the statements before, one
  statement and the statements after, the statements before run without error, every name
  they assign is then bound, and running the one statement next leaves each of these
  bindings as it was: no binding is changed or removed once made.
\<close>

theorem conf_py_bound_once:
  "list_all (\<lambda>x. count_list (targets conf_py) x = 1) (targets conf_py) \<and>
   length (targets conf_py) = length conf_py \<and>
   (\<forall>pre st post. conf_py = pre @ st # post \<longrightarrow>
      (\<exists>s s'. exec_block h n pre s0 = Some (Inr s) \<and>
         exec_stmt h n st s = Some (Inr s') \<and>
         list_all (\<lambda>x. globals s x \<noteq> None \<and> globals s' x = globals s x) (targets pre)))"
proof (intro conjI allI impI)
  show "list_all (\<lambda>x. count_list (targets conf_py) x = 1) (targets conf_py)"
    by (simp add: targets_conf_py)
  show "length (targets conf_py) = length conf_py"
    by (simp add: targets_conf_py conf_py_length)
next
  fix pre st post
  assume split: "conf_py = pre @ st # post"
  from split_at_index [OF split]
  have k: "length pre < 16" and pre: "pre = take (length pre) conf_py"
    and st: "st = conf_py ! length pre"
    by (simp_all add: conf_py_length)
  from conf_py_step [OF k, of h n s0]
  show "\<exists>s s'. exec_block h n pre s0 = Some (Inr s) \<and>
         exec_stmt h n st s = Some (Inr s') \<and>
         list_all (\<lambda>x. globals s x \<noteq> None \<and> globals s' x = globals s x) (targets pre)"
    using pre st by simp
qed

theorem conf_py_bound_once_witness:
  "conf_py = take 5 conf_py @ conf_py ! 5 # drop 6 conf_py \<and>
   (\<exists>s s'. exec_block bare_host 0 (take 5 conf_py) empty_state = Some (Inr s) \<and>
      exec_stmt bare_host 0 (conf_py ! 5) s = Some (Inr s') \<and>
      list_all (\<lambda>x. globals s x \<noteq> None \<and> globals s' x = globals s x)
        (targets (take 5 conf_py)))"
proof -
  have split: "conf_py = take 5 conf_py @ conf_py ! 5 # drop 6 conf_py"
    by (simp add: conf_py_def)
  from conf_py_bound_once [of bare_host 0 empty_state]
  have "\<forall>pre st post. conf_py = pre @ st # post \<longrightarrow>
      (\<exists>s s'. exec_block bare_host 0 pre empty_state = Some (Inr s) \<and>
         exec_stmt bare_host 0 st s = Some (Inr s') \<and>
         list_all (\<lambda>x. globals s x \<noteq> None \<and> globals s' x = globals s x) (targets pre))"
    by blast
  with split show ?thesis by blast
qed

text \<open>
  C4. After the module has run, \<open>extensions\<close> is bound to a list of exactly eight
  strings, in the order of the file: sphinx.ext.duration, sphinx.ext.doctest,
  sphinx.ext.autodoc, sphinx.ext.autosummary, sphinx.ext.intersphinx,
  sphinx.ext.autosectionlabel, myst_parser, sphinx_rtd_theme.
\<close>

theorem conf_py_extensions:
  "\<exists>s'. exec_block h n conf_py s = Some (Inr s') \<and>
     globals s' ''extensions'' = Some (VList
       [VStr ''sphinx.ext.duration'', VStr ''sphinx.ext.doctest'', VStr ''sphinx.ext.autodoc'',
        VStr ''sphinx.ext.autosummary'', VStr ''sphinx.ext.intersphinx'',
        VStr ''sphinx.ext.autosectionlabel'', VStr ''myst_parser'', VStr ''sphinx_rtd_theme''])"
  by (simp add: exec_conf_py bind_name_def)

text \<open>
  C6. After the module has run, \<open>project\<close> is bound to the string rules_testing,
  \<open>release\<close> to 0.1 and \<open>version\<close> to 0.1.0; \<open>extensions\<close> is bound to a list of
  strings that is not empty; \<open>intersphinx_mapping\<close> is bound to a mapping (one with no
  entry); and \<open>html_css_files\<close> is bound to the list whose only item is css/custom.css.
\<close>

theorem conf_py_project_entities:
  "\<exists>s' es. exec_block h n conf_py s = Some (Inr s') \<and>
     globals s' ''project'' = Some (VStr ''rules_testing'') \<and>
     globals s' ''release'' = Some (VStr ''0.1'') \<and>
     globals s' ''version'' = Some (VStr ''0.1.0'') \<and>
     globals s' ''extensions'' = Some (VList es) \<and> es \<noteq> [] \<and> list_all is_string es \<and>
     globals s' ''intersphinx_mapping'' = Some (VDict []) \<and>
     globals s' ''html_css_files'' = Some (VList [VStr ''css/custom.css''])"
  by (simp add: exec_conf_py bind_name_def)

text \<open>
  C7. Evaluating the module always ends, and ends without error: under any host, with any
  fuel and from any state, the run of the whole file yields a state, neither an error nor
  a missing result. No statement of the file can fail: each of them, run by itself from
  any state, yields a state too.
\<close>

theorem conf_py_never_fails:
  "(\<exists>s'. exec_block h n conf_py s = Some (Inr s')) \<and>
   list_all (\<lambda>st. \<exists>s'. exec_stmt h n st s = Some (Inr s')) conf_py"
proof -
  have "\<exists>s'. exec_block h n conf_py s = Some (Inr s')"
    by (simp add: exec_conf_py)
  moreover have "list_all (\<lambda>st. \<exists>s'. exec_stmt h n st s = Some (Inr s')) conf_py"
    by (simp add: conf_py_def)
  ultimately show ?thesis by blast
qed

text \<open>
  C8. Two evaluations of the module, under any two hosts, with any two amounts of fuel and
  from any two states, both end without error, and the states they leave bind every name
  the file assigns, and bind it to the same value.
\<close>

theorem conf_py_input_independent:
  "\<exists>r1 r2. exec_block h1 n1 conf_py s1 = Some (Inr r1) \<and>
     exec_block h2 n2 conf_py s2 = Some (Inr r2) \<and>
     list_all (\<lambda>x. globals r1 x \<noteq> None \<and> globals r1 x = globals r2 x) (targets conf_py)"
  unfolding exec_conf_py targets_conf_py
  by (simp add: bind_name_def)

text \<open>
  C9. After the module has run, \<open>html_theme\<close> is bound to the string sphinx_rtd_theme,
  and that string is an item of the list bound to \<open>extensions\<close>.
\<close>

theorem conf_py_theme_enabled:
  "\<exists>s' t es. exec_block h n conf_py s = Some (Inr s') \<and>
     globals s' ''html_theme'' = Some (VStr t) \<and> t = ''sphinx_rtd_theme'' \<and>
     globals s' ''extensions'' = Some (VList es) \<and> VStr t \<in> set es"
  by (simp add: exec_conf_py bind_name_def)

text \<open>
  C10. After the module has run, \<open>release\<close> is bound to the string 0.1 and \<open>version\<close>
  to the string 0.1.0; the first is a proper prefix of the second, which is the first
  followed by .0.
\<close>

theorem conf_py_release_prefix_of_version:
  "\<exists>s' r v. exec_block h n conf_py s = Some (Inr s') \<and>
     globals s' ''release'' = Some (VStr r) \<and> r = ''0.1'' \<and>
     globals s' ''version'' = Some (VStr v) \<and> v = ''0.1.0'' \<and>
     strict_prefix r v \<and> v = r @ ''.0''"
  by (simp add: exec_conf_py bind_name_def)

end
